theory Spec2Isabelle
  imports Complex_Main
begin

section \<open>Data model\<close>

text \<open>
  The module \<^verbatim>\<open>global_mechanism.py\<close> works on species, on reactions, on a filter
  dictionary and on a parameter dictionary.  The classes \<^verbatim>\<open>Species\<close>,
  \<^verbatim>\<open>ComplexSpecies\<close>, \<^verbatim>\<open>Reaction\<close> and \<^verbatim>\<open>Mechanism\<close> are imported from sibling
  modules; the fields that \<^verbatim>\<open>global_mechanism.py\<close> reads are kept under their names.
\<close>

text \<open>
  A species has a name, a material type and a list of attributes; a
  \<^verbatim>\<open>ComplexSpecies\<close> is a species that also owns the list \<^verbatim>\<open>species\<close> of its
  constituents.  The test \<^verbatim>\<open>isinstance(s, ComplexSpecies)\<close> is the constructor test.
  The datatype holds every combination of field values; the species that the
  constructors of the sibling module build are singled out by \<open>inherits_attributes\<close>
  below.
\<close>

datatype species =
    Species (name: string) (material_type: string) (attributes: "string list")
  | ComplexSpecies (name: string) (material_type: string) (attributes: "string list")
      (species: "species list")

text \<open>
  Modelled from the spec: the class \<^verbatim>\<open>Reaction\<close> is not part of this module.  The
  call \<^verbatim>\<open>Reaction(inputs, outputs, k)\<close> builds an entity with ordered lists of
  reactants and products and a rate, which may be numeric or symbolic.
\<close>

record 'v reaction =
  inputs :: "species list"
  outputs :: "species list"
  k :: 'v

definition Reaction :: "species list \<Rightarrow> species list \<Rightarrow> 'v \<Rightarrow> 'v reaction" where
  "Reaction ins outs rate = \<lparr>inputs = ins, outputs = outs, k = rate\<rparr>"

text \<open>
  The filter dictionary maps tokens (strings) to booleans.  A key of the parameter
  dictionary is either a plain string or a tuple of strings; Python never identifies
  the two, so they are different constructors.
\<close>

type_synonym filter_dict = "string \<rightharpoonup> bool"

datatype key = Name string | Tuple "string list"

type_synonym 'v parameters = "key \<rightharpoonup> 'v"

text \<open>
  The attributes that \<^verbatim>\<open>GlobalMechanism.__init__\<close> sets.  The field \<^verbatim>\<open>name\<close> of a
  mechanism is called \<open>mech_name\<close> here, since \<open>name\<close> is the name of a species.
\<close>

record global_mechanism =
  mech_name :: string
  mechanism_type :: string
  filter_dict :: filter_dict
  default_on :: bool

definition GlobalMechanism :: "string \<Rightarrow> string \<Rightarrow> filter_dict \<Rightarrow> bool \<Rightarrow> global_mechanism" where
  "GlobalMechanism nm mt fd d =
     \<lparr>mech_name = nm, mechanism_type = mt, filter_dict = fd, default_on = d\<rparr>"

definition Dilution :: "string \<Rightarrow> string \<Rightarrow> filter_dict \<Rightarrow> bool \<Rightarrow> global_mechanism" where
  "Dilution nm mt fd d = GlobalMechanism nm mt fd d"

definition AnitDilutionConstiutiveCreation ::
  "string \<Rightarrow> string \<Rightarrow> filter_dict \<Rightarrow> bool \<Rightarrow> global_mechanism" where
  "AnitDilutionConstiutiveCreation nm mt fd d = GlobalMechanism nm mt fd d"

text \<open>The default arguments of the two concrete constructors.\<close>

definition Dilution_default :: global_mechanism where
  "Dilution_default = Dilution ''global_degredation_via_dilution'' ''dilution'' Map.empty True"

definition AnitDilutionConstiutiveCreation_default :: global_mechanism where
  "AnitDilutionConstiutiveCreation_default =
     AnitDilutionConstiutiveCreation ''anti_dilution_constiuitive_creation'' ''dilution''
       Map.empty True"

text \<open>
  Every \<^verbatim>\<open>raise\<close> of the module, and the failing subscript \<^verbatim>\<open>parameters["kdil"]\<close>, is a
  value: the exception class with its message (for \<^verbatim>\<open>KeyError\<close>, the missing key).
\<close>

datatype error = AttributeError string | ValueError string | KeyError key

section \<open>The species filter\<close>

text \<open>
  \<^verbatim>\<open>repr\<close> of a species and of a mechanism are defined in the sibling modules; they are
  the parameters \<open>rp\<close> and \<open>mrp\<close> of every function that calls them.
\<close>

definition conflict_error :: "(species \<Rightarrow> string) \<Rightarrow> (global_mechanism \<Rightarrow> string) \<Rightarrow>
    global_mechanism \<Rightarrow> species \<Rightarrow> error" where
  "conflict_error rp mrp m s =
     AttributeError (''species '' @ rp s @
       '' has multiple attributes(or material type) which conflict with global mechanism filter ''
       @ mrp m @ ''.'')"

text \<open>
  The inner loop \<^verbatim>\<open>for a in ...\<close> of \<^verbatim>\<open>apply_filter\<close>: the state is \<^verbatim>\<open>use_mechanism\<close>,
  \<open>None\<close> until the first token found in the dictionary.
\<close>

fun filter_attributes :: "filter_dict \<Rightarrow> error \<Rightarrow> string list \<Rightarrow> bool option \<Rightarrow>
    error + bool option" where
  "filter_attributes fd err [] use_mechanism = Inr use_mechanism"
| "filter_attributes fd err (a # as) use_mechanism =
     (case fd a of
        None \<Rightarrow> filter_attributes fd err as use_mechanism
      | Some v \<Rightarrow>
          (case use_mechanism of
             None \<Rightarrow> filter_attributes fd err as (Some v)
           | Some u \<Rightarrow> if u \<noteq> v then Inl err else filter_attributes fd err as use_mechanism))"

text \<open>
  The outer loop \<^verbatim>\<open>for subs in species_list\<close>: the attributes are those of \<open>s\<close>, the
  species the filter was called on, for every \<open>subs\<close>.
\<close>

fun filter_species :: "(species \<Rightarrow> string) \<Rightarrow> filter_dict \<Rightarrow> error \<Rightarrow> species \<Rightarrow>
    species list \<Rightarrow> bool option \<Rightarrow> error + bool option" where
  "filter_species rp fd err s [] use_mechanism = Inr use_mechanism"
| "filter_species rp fd err s (subs # rest) use_mechanism =
     (case filter_attributes fd err
             (attributes s @ [material_type subs, rp subs, name subs]) use_mechanism of
        Inl e \<Rightarrow> Inl e
      | Inr use_mechanism' \<Rightarrow> filter_species rp fd err s rest use_mechanism')"

fun species_list :: "species \<Rightarrow> species list" where
  "species_list (ComplexSpecies n mt as sp) = ComplexSpecies n mt as sp # sp"
| "species_list (Species n mt as) = [Species n mt as]"

definition apply_filter :: "(species \<Rightarrow> string) \<Rightarrow> (global_mechanism \<Rightarrow> string) \<Rightarrow>
    global_mechanism \<Rightarrow> species \<Rightarrow> error + bool" where
  "apply_filter rp mrp m s =
     (case filter_species rp (filter_dict m) (conflict_error rp mrp m s) s (species_list s) None of
        Inl e \<Rightarrow> Inl e
      | Inr None \<Rightarrow> Inr (default_on m)
      | Inr (Some use_mechanism) \<Rightarrow> Inr use_mechanism)"

text \<open>
  The tokens that the two loops test against the dictionary, in the order of the
  tests: for each \<open>subs\<close> of \<open>species_list s\<close>, the list
  \<^verbatim>\<open>s.attributes+[subs.material_type, repr(subs), subs.name]\<close>.
\<close>

definition candidate_tokens :: "(species \<Rightarrow> string) \<Rightarrow> species \<Rightarrow> string list" where
  "candidate_tokens rp s =
     concat (map (\<lambda>subs. attributes s @ [material_type subs, rp subs, name subs])
       (species_list s))"

text \<open>
  The direct constituents of a species: the list \<^verbatim>\<open>s.species\<close> of a
  \<^verbatim>\<open>ComplexSpecies\<close>, and none for a plain species, which has no such field.
\<close>

fun constituents :: "species \<Rightarrow> species list" where
  "constituents (ComplexSpecies n mt as sp) = sp"
| "constituents (Species n mt as) = []"

text \<open>
  The constructor of \<^verbatim>\<open>ComplexSpecies\<close> is outside this module.  It takes two or more
  constituents and adds the attributes of each of them to the attributes of the
  composite species, so that every attribute of a direct constituent is an attribute
  of the composite.  This is the property of its result that the filter depends on; a
  plain species has it, having no constituents.
\<close>

definition inherits_attributes :: "species \<Rightarrow> bool" where
  "inherits_attributes s \<longleftrightarrow>
     (\<forall>c\<in>set (constituents s). set (attributes c) \<subseteq> set (attributes s))"

text \<open>
  The specification's wording, for comparison with the code.  The tokens derived from a
  species are its attributes, material type, name and representation and, for a
  composite species, the same four kinds of token of each direct constituent.
\<close>

definition own_tokens_spec :: "(species \<Rightarrow> string) \<Rightarrow> species \<Rightarrow> string list" where
  "own_tokens_spec rp s = attributes s @ [material_type s, name s, rp s]"

definition derived_tokens_spec :: "(species \<Rightarrow> string) \<Rightarrow> species \<Rightarrow> string list" where
  "derived_tokens_spec rp s =
     own_tokens_spec rp s @ concat (map (own_tokens_spec rp) (constituents s))"

section \<open>The parameter resolver\<close>

definition not_found_error :: "(species \<Rightarrow> string) \<Rightarrow> global_mechanism \<Rightarrow> species \<Rightarrow> string \<Rightarrow>
    error" where
  "not_found_error rp m s param_name =
     ValueError (''No parameter found for GlobalMechanism name: '' @ mech_name m @
       '' type: '' @ mechanism_type m @ '' species: '' @ rp s @ '' param: '' @ param_name)"

text \<open>
  \<^verbatim>\<open>get_parameter\<close>: a chain of membership tests, each followed by a read of the key
  just found.  \<^verbatim>\<open>(param_name)\<close> is the string itself, not a tuple.  The dictionary is
  an argument and no result: the method has no statement that writes to it.
\<close>

definition get_parameter :: "(species \<Rightarrow> string) \<Rightarrow> global_mechanism \<Rightarrow> species \<Rightarrow>
    'v parameters \<Rightarrow> string \<Rightarrow> error + 'v" where
  "get_parameter rp m s parameters param_name =
     (case parameters (Tuple [mech_name m, rp s, param_name]) of
        Some v \<Rightarrow> Inr v
      | None \<Rightarrow>
     (case parameters (Tuple [mechanism_type m, rp s, param_name]) of
        Some v \<Rightarrow> Inr v
      | None \<Rightarrow>
     (case parameters (Tuple [rp s, param_name]) of
        Some v \<Rightarrow> Inr v
      | None \<Rightarrow>
     (case parameters (Tuple [mech_name m, param_name]) of
        Some v \<Rightarrow> Inr v
      | None \<Rightarrow>
     (case parameters (Tuple [mechanism_type m, param_name]) of
        Some v \<Rightarrow> Inr v
      | None \<Rightarrow>
     (case parameters (Name param_name) of
        Some v \<Rightarrow> Inr v
      | None \<Rightarrow> Inl (not_found_error rp m s param_name)))))))"

text \<open>
  The specification's wording, for comparison with the code: the resolution order,
  from the most specific key to the bare parameter name.
\<close>

definition resolution_order_spec :: "(species \<Rightarrow> string) \<Rightarrow> global_mechanism \<Rightarrow> species \<Rightarrow> string \<Rightarrow>
    key list" where
  "resolution_order_spec rp m s param_name =
     [Tuple [mech_name m, rp s, param_name],
      Tuple [mechanism_type m, rp s, param_name],
      Tuple [rp s, param_name],
      Tuple [mech_name m, param_name],
      Tuple [mechanism_type m, param_name],
      Name param_name]"

section \<open>Hooks and bulk updates\<close>

text \<open>The hooks of the base class return the empty list.\<close>

definition update_species :: "global_mechanism \<Rightarrow> species \<Rightarrow> 'v parameters \<Rightarrow>
    error + species list" where
  "update_species m s parameters = Inr []"

definition update_reactions :: "global_mechanism \<Rightarrow> species \<Rightarrow> 'v parameters \<Rightarrow>
    error + 'v reaction list" where
  "update_reactions m s parameters = Inr []"

definition Dilution_update_reactions :: "(species \<Rightarrow> string) \<Rightarrow> global_mechanism \<Rightarrow> species \<Rightarrow>
    'v parameters \<Rightarrow> error + 'v reaction list" where
  "Dilution_update_reactions rp m s parameters =
     (case get_parameter rp m s parameters ''kdil'' of
        Inl e \<Rightarrow> Inl e
      | Inr k_dil \<Rightarrow> Inr [Reaction [s] [] k_dil])"

definition AnitDilutionConstiutiveCreation_update_reactions :: "global_mechanism \<Rightarrow> species \<Rightarrow>
    'v parameters \<Rightarrow> error + 'v reaction list" where
  "AnitDilutionConstiutiveCreation_update_reactions m s parameters =
     (case parameters (Name ''kdil'') of
        None \<Rightarrow> Inl (KeyError (Name ''kdil''))
      | Some k_dil \<Rightarrow> Inr [Reaction [] [s] k_dil])"

text \<open>
  The loop shared by \<^verbatim>\<open>update_species_global\<close> and \<^verbatim>\<open>update_reactions_global\<close>: the
  accumulator is \<^verbatim>\<open>new_species\<close> (\<^verbatim>\<open>new_reactions\<close>), the hook is the method that
  \<^verbatim>\<open>self.update_species\<close> (\<^verbatim>\<open>self.update_reactions\<close>) resolves to in the class of the
  mechanism.  An exception of the filter or of the hook ends the loop.
\<close>

fun update_global_loop :: "(species \<Rightarrow> string) \<Rightarrow> (global_mechanism \<Rightarrow> string) \<Rightarrow>
    (global_mechanism \<Rightarrow> species \<Rightarrow> 'p \<Rightarrow> error + 'a list) \<Rightarrow> global_mechanism \<Rightarrow> 'p \<Rightarrow>
    species list \<Rightarrow> 'a list \<Rightarrow> error + 'a list" where
  "update_global_loop rp mrp hook m parameters [] new = Inr new"
| "update_global_loop rp mrp hook m parameters (s # rest) new =
     (case apply_filter rp mrp m s of
        Inl e \<Rightarrow> Inl e
      | Inr use_mechanism \<Rightarrow>
          if use_mechanism then
            (case hook m s parameters of
               Inl e \<Rightarrow> Inl e
             | Inr out \<Rightarrow> update_global_loop rp mrp hook m parameters rest (new @ out))
          else update_global_loop rp mrp hook m parameters rest new)"

definition update_species_global :: "(species \<Rightarrow> string) \<Rightarrow> (global_mechanism \<Rightarrow> string) \<Rightarrow>
    (global_mechanism \<Rightarrow> species \<Rightarrow> 'p \<Rightarrow> error + species list) \<Rightarrow> global_mechanism \<Rightarrow>
    species list \<Rightarrow> 'p \<Rightarrow> error + species list" where
  "update_species_global rp mrp hook m sl parameters =
     update_global_loop rp mrp hook m parameters sl []"

definition update_reactions_global :: "(species \<Rightarrow> string) \<Rightarrow> (global_mechanism \<Rightarrow> string) \<Rightarrow>
    (global_mechanism \<Rightarrow> species \<Rightarrow> 'p \<Rightarrow> error + 'r list) \<Rightarrow> global_mechanism \<Rightarrow>
    species list \<Rightarrow> 'p \<Rightarrow> error + 'r list" where
  "update_reactions_global rp mrp hook m sl parameters =
     update_global_loop rp mrp hook m parameters sl []"

section \<open>Sample representations\<close>

text \<open>
  Two concrete representation functions, used where a statement is evaluated at a
  concrete species or mechanism.  For a species: the material type and an underscore
  unless the material type is empty, then the name, then every attribute after an
  underscore.  For a mechanism: its name.
\<close>

definition repr_sample :: "species \<Rightarrow> string" where
  "repr_sample s =
     (if material_type s = [] then [] else material_type s @ ''_'') @ name s @
     concat (map (\<lambda>a. ''_'' @ a) (attributes s))"

definition mech_repr_sample :: "global_mechanism \<Rightarrow> string" where
  "mech_repr_sample m = mech_name m"

section \<open>Auxiliary facts about the filter loops\<close>

lemma filter_attributes_append:
  "filter_attributes fd err (xs @ ys) um =
     (case filter_attributes fd err xs um of
        Inl e \<Rightarrow> Inl e
      | Inr um' \<Rightarrow> filter_attributes fd err ys um')"
  by (induction xs arbitrary: um) (auto split: option.splits)

lemma filter_species_concat:
  "filter_species rp fd err s subs um =
     filter_attributes fd err
       (concat (map (\<lambda>x. attributes s @ [material_type x, rp x, name x]) subs)) um"
proof (induction subs arbitrary: um)
  case Nil
  show ?case by simp
next
  case (Cons x subs)
  let ?f = "\<lambda>x. attributes s @ [material_type x, rp x, name x]"
  have "filter_attributes fd err (concat (map ?f (x # subs))) um =
        filter_attributes fd err (?f x @ concat (map ?f subs)) um"
    by simp
  also have "\<dots> = (case filter_attributes fd err (?f x) um of
                      Inl e \<Rightarrow> Inl e
                    | Inr um' \<Rightarrow> filter_attributes fd err (concat (map ?f subs)) um')"
    by (rule filter_attributes_append)
  also have "\<dots> = filter_species rp fd err s (x # subs) um"
    by (simp only: filter_species.simps Cons.IH cong: sum.case_cong)
  finally show ?case by (rule sym)
qed

lemma species_list_constituents: "species_list s = s # constituents s"
  by (cases s) simp_all

text \<open>The values found so far, and the outcome they determine.\<close>

lemma filter_attributes_hits:
  "filter_attributes fd err ts um =
     (case (case um of None \<Rightarrow> [] | Some u \<Rightarrow> [u]) @ List.map_filter fd ts of
        [] \<Rightarrow> Inr None
      | b # bs \<Rightarrow> if set bs \<subseteq> {b} then Inr (Some b) else Inl err)"
proof (induction ts arbitrary: um)
  case Nil
  show ?case by (simp add: map_filter_simps split: option.splits)
next
  case (Cons a ts)
  show ?case
    by (auto simp: Cons.IH split: option.splits list.splits)
qed

lemma apply_filter_hits:
  "apply_filter rp mrp m s =
     (case List.map_filter (filter_dict m) (candidate_tokens rp s) of
        [] \<Rightarrow> Inr (default_on m)
      | b # bs \<Rightarrow> if set bs \<subseteq> {b} then Inr b else Inl (conflict_error rp mrp m s))"
  unfolding apply_filter_def candidate_tokens_def filter_species_concat filter_attributes_hits
  by (simp split: list.splits)

lemma map_filter_Nil_iff: "List.map_filter f xs = [] \<longleftrightarrow> (\<forall>x\<in>set xs. f x = None)"
  by (induction xs) (auto split: option.splits)

lemma set_map_filter: "set (List.map_filter f xs) = {y. \<exists>x\<in>set xs. f x = Some y}"
  by (induction xs) (auto split: option.splits)

lemma set_candidate_tokens:
  "set (candidate_tokens rp s) =
     set (attributes s) \<union> {material_type s, rp s, name s} \<union>
     (\<Union>c\<in>set (constituents s). {material_type c, rp c, name c})"
  by (auto simp: candidate_tokens_def species_list_constituents)

lemma candidate_tokens_subset_derived:
  "set (candidate_tokens rp s) \<subseteq> set (derived_tokens_spec rp s)"
  unfolding set_candidate_tokens
  by (auto simp: derived_tokens_spec_def own_tokens_spec_def)

lemma derived_tokens_inherited:
  assumes "inherits_attributes s"
  shows "set (derived_tokens_spec rp s) = set (candidate_tokens rp s)"
proof
  show "set (candidate_tokens rp s) \<subseteq> set (derived_tokens_spec rp s)"
    by (rule candidate_tokens_subset_derived)
next
  show "set (derived_tokens_spec rp s) \<subseteq> set (candidate_tokens rp s)"
  proof
    fix t
    assume "t \<in> set (derived_tokens_spec rp s)"
    then consider "t \<in> set (attributes s) \<union> {material_type s, rp s, name s}"
      | c where "c \<in> set (constituents s)" "t \<in> set (attributes c)"
      | c where "c \<in> set (constituents s)" "t \<in> {material_type c, rp c, name c}"
      by (auto simp: derived_tokens_spec_def own_tokens_spec_def)
    then show "t \<in> set (candidate_tokens rp s)"
    proof cases
      case 1
      then show ?thesis
        unfolding set_candidate_tokens by blast
    next
      case 2
      with assms have "t \<in> set (attributes s)"
        unfolding inherits_attributes_def by blast
      then show ?thesis
        unfolding set_candidate_tokens by blast
    next
      case 3
      then show ?thesis
        unfolding set_candidate_tokens by blast
    qed
  qed
qed

text \<open>The two outcomes of the filter, in terms of the tokens that the loops test.\<close>

lemma apply_filter_candidates_agreed:
  "((\<forall>t\<in>set (derived_tokens_spec rp s). filter_dict m t = None) \<longrightarrow>
      apply_filter rp mrp m s = Inr (default_on m)) \<and>
   ((\<exists>t\<in>set (candidate_tokens rp s). filter_dict m t \<noteq> None) \<and>
    (\<forall>t\<in>set (candidate_tokens rp s). \<forall>c. filter_dict m t = Some c \<longrightarrow> c = b) \<longrightarrow>
      apply_filter rp mrp m s = Inr b)"
proof (intro conjI impI)
  let ?hs = "List.map_filter (filter_dict m) (candidate_tokens rp s)"
  assume "\<forall>t\<in>set (derived_tokens_spec rp s). filter_dict m t = None"
  with candidate_tokens_subset_derived [of rp s]
  have "\<forall>t\<in>set (candidate_tokens rp s). filter_dict m t = None"
    by blast
  then have "?hs = []"
    using map_filter_Nil_iff [of "filter_dict m" "candidate_tokens rp s"] by simp
  then show "apply_filter rp mrp m s = Inr (default_on m)"
    by (simp add: apply_filter_hits)
next
  let ?hs = "List.map_filter (filter_dict m) (candidate_tokens rp s)"
  assume h: "(\<exists>t\<in>set (candidate_tokens rp s). filter_dict m t \<noteq> None) \<and>
    (\<forall>t\<in>set (candidate_tokens rp s). \<forall>c. filter_dict m t = Some c \<longrightarrow> c = b)"
  from h obtain t where "t \<in> set (candidate_tokens rp s)" "filter_dict m t \<noteq> None"
    by (elim conjE bexE)
  then have "\<not> (\<forall>x\<in>set (candidate_tokens rp s). filter_dict m x = None)"
    by (intro notI) (drule (1) bspec, simp)
  then have ne: "?hs \<noteq> []"
    by (simp only: map_filter_Nil_iff not_False_eq_True)
  from h have all: "set ?hs \<subseteq> {b}"
    unfolding set_map_filter by blast
  from ne obtain x xs where hs: "?hs = x # xs"
    by (cases ?hs) auto
  with all have "x = b" "set xs \<subseteq> {x}"
    by auto
  with hs show "apply_filter rp mrp m s = Inr b"
    by (simp add: apply_filter_hits)
qed

lemma apply_filter_candidates_conflict:
  "t1 \<in> set (candidate_tokens rp s) \<Longrightarrow> t2 \<in> set (candidate_tokens rp s) \<Longrightarrow>
   filter_dict m t1 = Some b1 \<Longrightarrow> filter_dict m t2 = Some b2 \<Longrightarrow> b1 \<noteq> b2 \<Longrightarrow>
   apply_filter rp mrp m s =
     Inl (AttributeError (''species '' @ rp s @
       '' has multiple attributes(or material type) which conflict with global mechanism filter ''
       @ mrp m @ ''.''))"
proof -
  assume a: "t1 \<in> set (candidate_tokens rp s)" "t2 \<in> set (candidate_tokens rp s)"
    "filter_dict m t1 = Some b1" "filter_dict m t2 = Some b2" "b1 \<noteq> b2"
  let ?hs = "List.map_filter (filter_dict m) (candidate_tokens rp s)"
  from a have in1: "b1 \<in> set ?hs" and in2: "b2 \<in> set ?hs"
    by (auto simp: set_map_filter)
  then obtain x xs where hs: "?hs = x # xs"
    by (cases ?hs) auto
  have "\<not> set xs \<subseteq> {x}"
  proof
    assume "set xs \<subseteq> {x}"
    with hs in1 in2 have "b1 = x" "b2 = x" by auto
    with a(5) show False by simp
  qed
  with hs show ?thesis
    by (simp add: apply_filter_hits conflict_error_def)
qed

section \<open>Auxiliary facts about the resolver and the bulk updates\<close>

lemma get_parameter_first_match:
  assumes "i < 6"
    and "parameters (resolution_order_spec rp m s pn ! i) = Some v"
    and "\<forall>j<i. parameters (resolution_order_spec rp m s pn ! j) = None"
  shows "get_parameter rp m s parameters pn = Inr v"
proof -
  from assms(1) consider "i = 0" | "i = 1" | "i = 2" | "i = 3" | "i = 4" | "i = 5"
    by linarith
  then show ?thesis
  proof cases
    case 1
    with assms(2) show ?thesis
      by (simp add: get_parameter_def resolution_order_spec_def)
  next
    case 2
    with assms(2) assms(3) [rule_format, of 0] show ?thesis
      by (simp add: get_parameter_def resolution_order_spec_def)
  next
    case 3
    with assms(2) assms(3) [rule_format, of 0] assms(3) [rule_format, of 1] show ?thesis
      by (simp add: get_parameter_def resolution_order_spec_def)
  next
    case 4
    with assms(2) assms(3) [rule_format, of 0] assms(3) [rule_format, of 1]
      assms(3) [rule_format, of 2] show ?thesis
      by (simp add: get_parameter_def resolution_order_spec_def)
  next
    case 5
    with assms(2) assms(3) [rule_format, of 0] assms(3) [rule_format, of 1]
      assms(3) [rule_format, of 2] assms(3) [rule_format, of 3] show ?thesis
      by (simp add: get_parameter_def resolution_order_spec_def)
  next
    case 6
    with assms(2) assms(3) [rule_format, of 0] assms(3) [rule_format, of 1]
      assms(3) [rule_format, of 2] assms(3) [rule_format, of 3] assms(3) [rule_format, of 4]
    show ?thesis
      by (simp add: get_parameter_def resolution_order_spec_def)
  qed
qed

lemma get_parameter_fails_iff:
  "(\<exists>e. get_parameter rp m s parameters pn = Inl e) \<longleftrightarrow>
     (\<forall>key\<in>set (resolution_order_spec rp m s pn). parameters key = None)"
  by (auto simp: get_parameter_def resolution_order_spec_def split: option.splits)

lemma get_parameter_error:
  "get_parameter rp m s parameters pn = Inl e \<Longrightarrow> e = not_found_error rp m s pn"
  by (auto simp: get_parameter_def split: option.splits)

lemma update_global_loop_acc:
  "update_global_loop rp mrp hook m parameters sl new =
     (case update_global_loop rp mrp hook m parameters sl [] of
        Inl e \<Rightarrow> Inl e
      | Inr r \<Rightarrow> Inr (new @ r))"
proof (induction sl arbitrary: new)
  case Nil
  show ?case by simp
next
  case (Cons s sl)
  show ?case
  proof (cases "apply_filter rp mrp m s")
    case (Inl e)
    then show ?thesis by simp
  next
    case (Inr use)
    show ?thesis
    proof (cases use)
      case False
      with Inr show ?thesis by (simp add: Cons.IH [of new])
    next
      case True
      show ?thesis
      proof (cases "hook m s parameters")
        case (Inl e)
        with Inr True show ?thesis by simp
      next
        case hk: (Inr out)
        have "update_global_loop rp mrp hook m parameters (s # sl) new =
              update_global_loop rp mrp hook m parameters sl (new @ out)"
          using Inr True hk by simp
        also have "\<dots> = (case update_global_loop rp mrp hook m parameters sl [] of
                            Inl e \<Rightarrow> Inl e | Inr r \<Rightarrow> Inr ((new @ out) @ r))"
          by (rule Cons.IH)
        finally have l: "update_global_loop rp mrp hook m parameters (s # sl) new =
            (case update_global_loop rp mrp hook m parameters sl [] of
                            Inl e \<Rightarrow> Inl e | Inr r \<Rightarrow> Inr ((new @ out) @ r))" .
        have "update_global_loop rp mrp hook m parameters (s # sl) [] =
              update_global_loop rp mrp hook m parameters sl ([] @ out)"
          using Inr True hk by simp
        also have "\<dots> = (case update_global_loop rp mrp hook m parameters sl [] of
                            Inl e \<Rightarrow> Inl e | Inr r \<Rightarrow> Inr (([] @ out) @ r))"
          by (rule Cons.IH)
        finally have r: "update_global_loop rp mrp hook m parameters (s # sl) [] =
            (case update_global_loop rp mrp hook m parameters sl [] of
                            Inl e \<Rightarrow> Inl e | Inr r \<Rightarrow> Inr (([] @ out) @ r))" .
        show ?thesis
          unfolding l r by (simp split: sum.splits)
      qed
    qed
  qed
qed

lemma update_global_loop_append:
  "update_global_loop rp mrp hook m parameters (xs @ ys) new =
     (case update_global_loop rp mrp hook m parameters xs new of
        Inl e \<Rightarrow> Inl e
      | Inr new' \<Rightarrow> update_global_loop rp mrp hook m parameters ys new')"
  by (induction xs arbitrary: new) (simp_all split: sum.splits)

lemma update_global_loop_hom:
  "update_global_loop rp mrp hook m parameters (xs @ ys) [] =
     (case update_global_loop rp mrp hook m parameters xs [] of
        Inl e \<Rightarrow> Inl e
      | Inr a \<Rightarrow>
          (case update_global_loop rp mrp hook m parameters ys [] of
             Inl e \<Rightarrow> Inl e
           | Inr b \<Rightarrow> Inr (a @ b)))"
proof (cases "update_global_loop rp mrp hook m parameters xs []")
  case (Inl e)
  then show ?thesis by (simp add: update_global_loop_append)
next
  case (Inr a)
  then show ?thesis
    by (simp add: update_global_loop_append update_global_loop_acc [of rp mrp hook m parameters ys a])
qed

lemma update_global_loop_filter:
  assumes "\<forall>s\<in>set sl. apply_filter rp mrp m s = Inr (dec s)"
    and "\<forall>s\<in>set sl. dec s \<longrightarrow> hook m s parameters = Inr (out s)"
  shows "update_global_loop rp mrp hook m parameters sl new =
           Inr (new @ concat (map out (filter dec sl)))"
  using assms by (induction sl arbitrary: new) simp_all

section \<open>Claims about the species filter\<close>

text \<open>
  Claim C1.  The tokens derived from a species are its attributes, material type, name
  and representation and the same tokens of the direct constituents of a composite
  species (\<open>derived_tokens_spec\<close>).  If none of them is a key of the filter dictionary,
  \<open>apply_filter\<close> returns \<open>default_on\<close>.  If at least one of them is a key and all of
  them that are keys map to the same boolean, \<open>apply_filter\<close> returns that boolean,
  whatever \<open>default_on\<close> is; this second part is for the species that the constructors
  build, whose composites hold the attributes of their constituents.
\<close>

theorem apply_filter_default_or_agreed:
  "((\<forall>t\<in>set (derived_tokens_spec rp s). filter_dict m t = None) \<longrightarrow>
      apply_filter rp mrp m s = Inr (default_on m)) \<and>
   (inherits_attributes s \<and>
    (\<exists>t\<in>set (derived_tokens_spec rp s). filter_dict m t \<noteq> None) \<and>
    (\<forall>t\<in>set (derived_tokens_spec rp s). \<forall>c. filter_dict m t = Some c \<longrightarrow> c = b) \<longrightarrow>
      apply_filter rp mrp m s = Inr b)"
proof (intro conjI impI)
  assume "\<forall>t\<in>set (derived_tokens_spec rp s). filter_dict m t = None"
  with apply_filter_candidates_agreed [of rp s m mrp b, THEN conjunct1]
  show "apply_filter rp mrp m s = Inr (default_on m)"
    by (rule mp)
next
  assume h: "inherits_attributes s \<and>
    (\<exists>t\<in>set (derived_tokens_spec rp s). filter_dict m t \<noteq> None) \<and>
    (\<forall>t\<in>set (derived_tokens_spec rp s). \<forall>c. filter_dict m t = Some c \<longrightarrow> c = b)"
  then have eq: "set (derived_tokens_spec rp s) = set (candidate_tokens rp s)"
    by (intro derived_tokens_inherited) (rule conjunct1)
  from h have "(\<exists>t\<in>set (candidate_tokens rp s). filter_dict m t \<noteq> None) \<and>
    (\<forall>t\<in>set (candidate_tokens rp s). \<forall>c. filter_dict m t = Some c \<longrightarrow> c = b)"
    unfolding eq by (rule conjunct2)
  with apply_filter_candidates_agreed [of rp s m mrp b, THEN conjunct2]
  show "apply_filter rp mrp m s = Inr b"
    by (rule mp)
qed

text \<open>
  Both parts at concrete species: a plain one without a match, and a composite one
  whose only match is the attribute of a constituent, which the composite holds too.
\<close>

theorem apply_filter_default_or_agreed_witness:
  "apply_filter repr_sample mech_repr_sample
     (GlobalMechanism ''gm'' ''global'' (map_of [(''rna'', True)]) False)
     (Species ''GFP'' ''protein'' [''tagged'']) = Inr False \<and>
   apply_filter repr_sample mech_repr_sample
     (GlobalMechanism ''gm'' ''global'' (map_of [(''degtagged'', True)]) False)
     (ComplexSpecies ''AB'' ''complex'' [''degtagged'']
        [Species ''A'' ''protein'' [''degtagged''], Species ''B'' ''rna'' []]) = Inr True"
proof
  let ?m = "GlobalMechanism ''gm'' ''global'' (map_of [(''rna'', True)]) False"
  let ?s = "Species ''GFP'' ''protein'' [''tagged'']"
  have "\<forall>t\<in>set (derived_tokens_spec repr_sample ?s). filter_dict ?m t = None"
    by (simp add: derived_tokens_spec_def own_tokens_spec_def repr_sample_def GlobalMechanism_def)
  with conjunct1 [OF apply_filter_default_or_agreed [of repr_sample ?s ?m mech_repr_sample]]
  have "apply_filter repr_sample mech_repr_sample ?m ?s = Inr (default_on ?m)"
    by (rule mp)
  then show "apply_filter repr_sample mech_repr_sample ?m ?s = Inr False"
    by (simp add: GlobalMechanism_def)
next
  let ?m = "GlobalMechanism ''gm'' ''global'' (map_of [(''degtagged'', True)]) False"
  let ?s = "ComplexSpecies ''AB'' ''complex'' [''degtagged'']
        [Species ''A'' ''protein'' [''degtagged''], Species ''B'' ''rna'' []]"
  have 0: "inherits_attributes ?s"
    by (simp add: inherits_attributes_def)
  have 1: "\<exists>t\<in>set (derived_tokens_spec repr_sample ?s). filter_dict ?m t \<noteq> None"
    by (auto simp add: derived_tokens_spec_def own_tokens_spec_def repr_sample_def
          GlobalMechanism_def)
  have 2: "\<forall>t\<in>set (derived_tokens_spec repr_sample ?s).
             \<forall>c. filter_dict ?m t = Some c \<longrightarrow> c = True"
    by (simp add: derived_tokens_spec_def own_tokens_spec_def repr_sample_def GlobalMechanism_def)
  from 1 2 have "(\<exists>t\<in>set (derived_tokens_spec repr_sample ?s). filter_dict ?m t \<noteq> None) \<and>
      (\<forall>t\<in>set (derived_tokens_spec repr_sample ?s).
         \<forall>c. filter_dict ?m t = Some c \<longrightarrow> c = True)"
    by (rule conjI)
  with 0 have 3: "inherits_attributes ?s \<and>
      (\<exists>t\<in>set (derived_tokens_spec repr_sample ?s). filter_dict ?m t \<noteq> None) \<and>
      (\<forall>t\<in>set (derived_tokens_spec repr_sample ?s).
         \<forall>c. filter_dict ?m t = Some c \<longrightarrow> c = True)"
    by (rule conjI)
  from conjunct2 [OF apply_filter_default_or_agreed [of repr_sample ?s ?m mech_repr_sample True]] 3
  show "apply_filter repr_sample mech_repr_sample ?m ?s = Inr True"
    by (rule mp)
qed

text \<open>
  Claim C2.  If two of the tokens derived from a species (\<open>derived_tokens_spec\<close>) are
  keys of the filter dictionary and map to different booleans, \<open>apply_filter\<close> returns
  no boolean: it raises the \<^verbatim>\<open>AttributeError\<close> whose message holds the representation
  of the species and the representation of the mechanism.  The statement is for the
  species that the constructors build, whose composites hold the attributes of their
  constituents.
\<close>

theorem apply_filter_conflict:
  "inherits_attributes s \<Longrightarrow>
   t1 \<in> set (derived_tokens_spec rp s) \<Longrightarrow> t2 \<in> set (derived_tokens_spec rp s) \<Longrightarrow>
   filter_dict m t1 = Some b1 \<Longrightarrow> filter_dict m t2 = Some b2 \<Longrightarrow> b1 \<noteq> b2 \<Longrightarrow>
   apply_filter rp mrp m s =
     Inl (AttributeError (''species '' @ rp s @
       '' has multiple attributes(or material type) which conflict with global mechanism filter ''
       @ mrp m @ ''.''))"
proof -
  assume inh: "inherits_attributes s"
    and a: "t1 \<in> set (derived_tokens_spec rp s)" "t2 \<in> set (derived_tokens_spec rp s)"
    and b: "filter_dict m t1 = Some b1" "filter_dict m t2 = Some b2" "b1 \<noteq> b2"
  from inh have eq: "set (derived_tokens_spec rp s) = set (candidate_tokens rp s)"
    by (rule derived_tokens_inherited)
  from a(1) have c1: "t1 \<in> set (candidate_tokens rp s)"
    unfolding eq .
  from a(2) have c2: "t2 \<in> set (candidate_tokens rp s)"
    unfolding eq .
  from c1 c2 b show ?thesis
    by (rule apply_filter_candidates_conflict)
qed

text \<open>
  A composite species whose material type is switched off, while an attribute of one
  of its constituents, which the composite holds too, is switched on.
\<close>

theorem apply_filter_conflict_witness:
  "apply_filter repr_sample mech_repr_sample
     (GlobalMechanism ''gm'' ''global'' (map_of [(''degtagged'', True), (''complex'', False)]) True)
     (ComplexSpecies ''AB'' ''complex'' [''degtagged'']
        [Species ''A'' ''protein'' [''degtagged''], Species ''B'' ''rna'' []]) =
   Inl (AttributeError
     ''species complex_AB_degtagged has multiple attributes(or material type) which conflict with global mechanism filter gm.'')"
proof -
  let ?m = "GlobalMechanism ''gm'' ''global''
              (map_of [(''degtagged'', True), (''complex'', False)]) True"
  let ?s = "ComplexSpecies ''AB'' ''complex'' [''degtagged'']
        [Species ''A'' ''protein'' [''degtagged''], Species ''B'' ''rna'' []]"
  have 0: "inherits_attributes ?s"
    by (simp add: inherits_attributes_def)
  have 1: "''degtagged'' \<in> set (derived_tokens_spec repr_sample ?s)"
    by (simp add: derived_tokens_spec_def own_tokens_spec_def)
  have 2: "''complex'' \<in> set (derived_tokens_spec repr_sample ?s)"
    by (simp add: derived_tokens_spec_def own_tokens_spec_def)
  have 3: "filter_dict ?m ''degtagged'' = Some True"
    by (simp add: GlobalMechanism_def)
  have 4: "filter_dict ?m ''complex'' = Some False"
    by (simp add: GlobalMechanism_def)
  have 5: "True \<noteq> False"
    by simp
  from apply_filter_conflict [OF 0 1 2 3 4 5, of mech_repr_sample]
  show ?thesis
    by (simp add: repr_sample_def mech_repr_sample_def GlobalMechanism_def)
qed

text \<open>
  Claim C3.  The subjects that \<open>apply_filter\<close> inspects are the species itself and its
  direct constituents, and the tokens tested for a subject are the attributes of the
  outer species with the material type, the representation and the name of the subject.
  First, the outcome is determined by the values that the filter dictionary has on these
  tokens, in this order: the default when there is none, the common value when they
  agree, the error otherwise.  Second, a dictionary with the single key \<open>t\<close> changes
  the outcome exactly when \<open>t\<close> is one of these tokens, so each of them is tested and
  no other token is, neither an attribute of a constituent nor a token of a constituent
  of a constituent.
\<close>

theorem apply_filter_subjects_and_tokens:
  "apply_filter rp mrp m s =
     (case List.map_filter (filter_dict m)
             (concat (map (\<lambda>subject. attributes s @
                             [material_type subject, rp subject, name subject])
                (s # constituents s))) of
        [] \<Rightarrow> Inr (default_on m)
      | b # bs \<Rightarrow> if \<forall>c\<in>set bs. c = b then Inr b else Inl (conflict_error rp mrp m s)) \<and>
   apply_filter rp mrp (m\<lparr>filter_dict := [t \<mapsto> v]\<rparr>) s =
     Inr (if t \<in> set (attributes s) \<union>
                 (\<Union>subject\<in>set (s # constituents s).
                    {material_type subject, rp subject, name subject})
          then v else default_on m)"
proof
  have "(\<forall>c\<in>set bs. c = b) \<longleftrightarrow> set bs \<subseteq> {b}" for b :: bool and bs
    by auto
  then show "apply_filter rp mrp m s =
     (case List.map_filter (filter_dict m)
             (concat (map (\<lambda>subject. attributes s @
                             [material_type subject, rp subject, name subject])
                (s # constituents s))) of
        [] \<Rightarrow> Inr (default_on m)
      | b # bs \<Rightarrow> if \<forall>c\<in>set bs. c = b then Inr b else Inl (conflict_error rp mrp m s))"
    by (simp only: apply_filter_hits candidate_tokens_def species_list_constituents)
next
  let ?m = "m\<lparr>filter_dict := [t \<mapsto> v]\<rparr>"
  let ?T = "set (attributes s) \<union>
     (\<Union>subject\<in>set (s # constituents s). {material_type subject, rp subject, name subject})"
  let ?hs = "List.map_filter (filter_dict ?m) (candidate_tokens rp s)"
  have T: "set (candidate_tokens rp s) = ?T"
    by (auto simp: set_candidate_tokens)
  have sub: "set ?hs \<subseteq> {v}"
    by (auto simp: set_map_filter split: if_splits)
  show "apply_filter rp mrp ?m s = Inr (if t \<in> ?T then v else default_on m)"
  proof (cases "t \<in> ?T")
    case True
    with T have "v \<in> set ?hs"
      by (auto simp: set_map_filter)
    then obtain x xs where hs: "?hs = x # xs"
      by (cases ?hs) auto
    with sub have "x = v" "set xs \<subseteq> {x}"
      by auto
    with hs True show ?thesis
      by (simp add: apply_filter_hits)
  next
    case False
    with T have "\<forall>x\<in>set (candidate_tokens rp s). filter_dict ?m x = None"
      by auto
    then have "?hs = []"
      by (simp only: map_filter_Nil_iff)
    with False show ?thesis
      by (simp add: apply_filter_hits)
  qed
qed

text \<open>
  A composite species with a composite constituent, each holding the attributes of its
  constituents.  The material type of the constituent of the constituent leaves the
  default in place; the material type of a direct constituent decides.
\<close>

theorem apply_filter_subjects_and_tokens_witness:
  "apply_filter repr_sample mech_repr_sample
     ((GlobalMechanism ''gm'' ''global'' Map.empty False)\<lparr>filter_dict := [''rna'' \<mapsto> True]\<rparr>)
     (ComplexSpecies ''ABC'' ''complex'' [''degtagged'']
        [ComplexSpecies ''AB'' ''dimer'' []
           [Species ''A'' ''rna'' [], Species ''B'' ''dna'' []],
         Species ''C'' ''protein'' [''degtagged'']]) = Inr False \<and>
   apply_filter repr_sample mech_repr_sample
     ((GlobalMechanism ''gm'' ''global'' Map.empty False)\<lparr>filter_dict := [''protein'' \<mapsto> True]\<rparr>)
     (ComplexSpecies ''ABC'' ''complex'' [''degtagged'']
        [ComplexSpecies ''AB'' ''dimer'' []
           [Species ''A'' ''rna'' [], Species ''B'' ''dna'' []],
         Species ''C'' ''protein'' [''degtagged'']]) = Inr True"
proof -
  let ?m = "GlobalMechanism ''gm'' ''global'' Map.empty False"
  let ?s = "ComplexSpecies ''ABC'' ''complex'' [''degtagged'']
        [ComplexSpecies ''AB'' ''dimer'' []
           [Species ''A'' ''rna'' [], Species ''B'' ''dna'' []],
         Species ''C'' ''protein'' [''degtagged'']]"
  note t = apply_filter_subjects_and_tokens [of repr_sample mech_repr_sample ?m ?s, THEN conjunct2]
  from t [of "''rna''" True] t [of "''protein''" True]
  show ?thesis
    by (simp add: repr_sample_def GlobalMechanism_def)
qed

section \<open>Claims about the parameter resolver\<close>

text \<open>
  Claim C4.  Whatever else the store holds, \<open>get_parameter\<close> returns the value stored
  under the first key of the resolution order that is present: the key at position
  \<open>i\<close> wins when no key at an earlier position is in the store.  The order is
  (name, repr, param), (type, repr, param), (repr, param), (name, param),
  (type, param) and the bare parameter name.
\<close>

theorem get_parameter_most_specific:
  "i < 6 \<Longrightarrow>
   parameters (resolution_order_spec rp m s param_name ! i) = Some v \<Longrightarrow>
   (\<forall>j<i. parameters (resolution_order_spec rp m s param_name ! j) = None) \<Longrightarrow>
   get_parameter rp m s parameters param_name = Inr v"
  by (rule get_parameter_first_match)

text \<open>A store with three of the six shapes: the species key wins for the species it
  names, the mechanism type key wins for another species, the bare name never does.\<close>

theorem get_parameter_most_specific_witness:
  "get_parameter repr_sample Dilution_default (Species ''GFP'' ''protein'' [])
     (map_of [(Name ''kdil'', 1 :: real), (Tuple [''dilution'', ''kdil''], 2),
              (Tuple [''protein_GFP'', ''kdil''], 3)]) ''kdil'' = Inr 3 \<and>
   get_parameter repr_sample Dilution_default (Species ''RFP'' ''protein'' [])
     (map_of [(Name ''kdil'', 1 :: real), (Tuple [''dilution'', ''kdil''], 2),
              (Tuple [''protein_GFP'', ''kdil''], 3)]) ''kdil'' = Inr 2"
proof
  let ?P = "map_of [(Name ''kdil'', 1 :: real), (Tuple [''dilution'', ''kdil''], 2),
              (Tuple [''protein_GFP'', ''kdil''], 3)]"
  let ?s = "Species ''GFP'' ''protein'' []"
  have 1: "(2 :: nat) < 6"
    by simp
  have 2: "?P (resolution_order_spec repr_sample Dilution_default ?s ''kdil'' ! 2) = Some 3"
    by (simp add: resolution_order_spec_def repr_sample_def)
  have 3: "\<forall>j<2. ?P (resolution_order_spec repr_sample Dilution_default ?s ''kdil'' ! j) = None"
    by (simp add: resolution_order_spec_def repr_sample_def Dilution_default_def Dilution_def
          GlobalMechanism_def less_Suc_eq eval_nat_numeral)
  from get_parameter_most_specific [OF 1 2 3]
  show "get_parameter repr_sample Dilution_default ?s ?P ''kdil'' = Inr 3" .
next
  let ?P = "map_of [(Name ''kdil'', 1 :: real), (Tuple [''dilution'', ''kdil''], 2),
              (Tuple [''protein_GFP'', ''kdil''], 3)]"
  let ?s = "Species ''RFP'' ''protein'' []"
  have 1: "(4 :: nat) < 6"
    by simp
  have 2: "?P (resolution_order_spec repr_sample Dilution_default ?s ''kdil'' ! 4) = Some 2"
    by (simp add: resolution_order_spec_def repr_sample_def Dilution_default_def Dilution_def
          GlobalMechanism_def)
  have 3: "\<forall>j<4. ?P (resolution_order_spec repr_sample Dilution_default ?s ''kdil'' ! j) = None"
    by (simp add: resolution_order_spec_def repr_sample_def Dilution_default_def Dilution_def
          GlobalMechanism_def less_Suc_eq eval_nat_numeral)
  from get_parameter_most_specific [OF 1 2 3]
  show "get_parameter repr_sample Dilution_default ?s ?P ''kdil'' = Inr 2" .
qed

text \<open>
  Claim C5.  \<open>get_parameter\<close> fails exactly when none of the six keys is in the store,
  and whenever it fails the error is the \<^verbatim>\<open>ValueError\<close> whose message holds the name
  and the type of the mechanism, the representation of the species and the parameter
  name.  The store is an argument only: the result of \<open>get_parameter\<close> is a value or an
  error, since the method tests membership and reads, and writes nothing.
\<close>

theorem get_parameter_fails_iff_no_key:
  "((\<exists>e. get_parameter rp m s parameters param_name = Inl e) \<longleftrightarrow>
      (\<forall>key\<in>set (resolution_order_spec rp m s param_name). parameters key = None)) \<and>
   (\<forall>e. get_parameter rp m s parameters param_name = Inl e \<longrightarrow>
      e = ValueError (''No parameter found for GlobalMechanism name: '' @ mech_name m @
            '' type: '' @ mechanism_type m @ '' species: '' @ rp s @ '' param: '' @ param_name))"
proof (intro conjI allI impI)
  show "(\<exists>e. get_parameter rp m s parameters param_name = Inl e) \<longleftrightarrow>
      (\<forall>key\<in>set (resolution_order_spec rp m s param_name). parameters key = None)"
    by (rule get_parameter_fails_iff)
next
  fix e
  assume "get_parameter rp m s parameters param_name = Inl e"
  then have "e = not_found_error rp m s param_name"
    by (rule get_parameter_error)
  then show "e = ValueError (''No parameter found for GlobalMechanism name: '' @ mech_name m @
            '' type: '' @ mechanism_type m @ '' species: '' @ rp s @ '' param: '' @ param_name)"
    by (simp only: not_found_error_def)
qed

text \<open>The empty store, with the message in full.\<close>

theorem get_parameter_fails_iff_no_key_witness:
  "get_parameter repr_sample Dilution_default (Species ''GFP'' ''protein'' [])
     (Map.empty :: real parameters) ''kdil'' =
   Inl (ValueError
     ''No parameter found for GlobalMechanism name: global_degredation_via_dilution type: dilution species: protein_GFP param: kdil'')"
proof -
  let ?s = "Species ''GFP'' ''protein'' []"
  let ?P = "Map.empty :: real parameters"
  note t = get_parameter_fails_iff_no_key [of repr_sample Dilution_default ?s ?P "''kdil''"]
  have "\<forall>key\<in>set (resolution_order_spec repr_sample Dilution_default ?s ''kdil''). ?P key = None"
    by simp
  with t [THEN conjunct1]
  have "\<exists>e. get_parameter repr_sample Dilution_default ?s ?P ''kdil'' = Inl e"
    by (rule iffD2)
  then obtain e where e: "get_parameter repr_sample Dilution_default ?s ?P ''kdil'' = Inl e" ..
  from t [THEN conjunct2, rule_format, OF e]
  have "e = ValueError (''No parameter found for GlobalMechanism name: '' @
     mech_name Dilution_default @ '' type: '' @ mechanism_type Dilution_default @
     '' species: '' @ repr_sample ?s @ '' param: '' @ ''kdil'')" .
  with e show ?thesis
    by (simp add: repr_sample_def Dilution_default_def Dilution_def GlobalMechanism_def)
qed

section \<open>Claims about the bulk updates\<close>

text \<open>
  Claim C6.  When the filter decides every species of the input list, and the hook
  returns for every species that the filter lets through, \<open>update_species_global\<close> and
  \<open>update_reactions_global\<close> return the outputs of the hook for the species whose
  decision is true, concatenated in the order of the input list, each output in its own
  order.  A species whose decision is false adds nothing, not even itself.
\<close>

theorem update_global_filtered_concat:
  assumes "\<forall>s\<in>set sl. apply_filter rp mrp m s = Inr (decision s)"
    and "\<forall>s\<in>set sl. decision s \<longrightarrow> species_hook m s parameters = Inr (new_species s)"
    and "\<forall>s\<in>set sl. decision s \<longrightarrow> reactions_hook m s parameters = Inr (new_reactions s)"
  shows "update_species_global rp mrp species_hook m sl parameters =
           Inr (concat (map new_species (filter decision sl))) \<and>
         update_reactions_global rp mrp reactions_hook m sl parameters =
           Inr (concat (map new_reactions (filter decision sl)))"
proof
  from update_global_loop_filter
         [where hook = species_hook and out = new_species and new = "[]", OF assms(1) assms(2)]
  show "update_species_global rp mrp species_hook m sl parameters =
           Inr (concat (map new_species (filter decision sl)))"
    by (simp add: update_species_global_def)
next
  from update_global_loop_filter
         [where hook = reactions_hook and out = new_reactions and new = "[]", OF assms(1) assms(3)]
  show "update_reactions_global rp mrp reactions_hook m sl parameters =
           Inr (concat (map new_reactions (filter decision sl)))"
    by (simp add: update_reactions_global_def)
qed

text \<open>Three species, the second one filtered out by its material type; a species hook
  that returns two species, and the reactions hook of \<open>Dilution\<close>.\<close>

theorem update_global_filtered_concat_witness:
  "update_species_global repr_sample mech_repr_sample (\<lambda>m s p. Inr [s, Species ''waste'' ''small'' []])
     (Dilution ''dil'' ''dilution'' (map_of [(''rna'', False)]) True)
     [Species ''GFP'' ''protein'' [], Species ''T'' ''rna'' [], Species ''RFP'' ''protein'' []]
     (map_of [(Name ''kdil'', 0.01 :: real)]) =
   Inr [Species ''GFP'' ''protein'' [], Species ''waste'' ''small'' [],
        Species ''RFP'' ''protein'' [], Species ''waste'' ''small'' []] \<and>
   update_reactions_global repr_sample mech_repr_sample (Dilution_update_reactions repr_sample)
     (Dilution ''dil'' ''dilution'' (map_of [(''rna'', False)]) True)
     [Species ''GFP'' ''protein'' [], Species ''T'' ''rna'' [], Species ''RFP'' ''protein'' []]
     (map_of [(Name ''kdil'', 0.01 :: real)]) =
   Inr [\<lparr>inputs = [Species ''GFP'' ''protein'' []], outputs = [], k = 0.01\<rparr>,
        \<lparr>inputs = [Species ''RFP'' ''protein'' []], outputs = [], k = 0.01\<rparr>]"
proof -
  let ?m = "Dilution ''dil'' ''dilution'' (map_of [(''rna'', False)]) True"
  let ?sl = "[Species ''GFP'' ''protein'' [], Species ''T'' ''rna'' [], Species ''RFP'' ''protein'' []]"
  let ?P = "map_of [(Name ''kdil'', 0.01 :: real)]"
  let ?hs = "\<lambda>(m :: global_mechanism) s (p :: real parameters). (Inr [s, Species ''waste'' ''small'' []] :: error + species list)"
  let ?dec = "\<lambda>s. material_type s \<noteq> ''rna''"
  let ?ns = "\<lambda>s. [s, Species ''waste'' ''small'' []]"
  let ?nr = "\<lambda>s. [\<lparr>inputs = [s], outputs = [], k = 0.01 :: real\<rparr>]"
  have 1: "\<forall>s\<in>set ?sl. apply_filter repr_sample mech_repr_sample ?m s = Inr (?dec s)"
    by (simp add: apply_filter_def repr_sample_def Dilution_def GlobalMechanism_def conflict_error_def)
  have 2: "\<forall>s\<in>set ?sl. ?dec s \<longrightarrow> ?hs ?m s ?P = Inr (?ns s)"
    by simp
  have 3: "\<forall>s\<in>set ?sl. ?dec s \<longrightarrow> Dilution_update_reactions repr_sample ?m s ?P = Inr (?nr s)"
    by (simp add: Dilution_update_reactions_def get_parameter_def Reaction_def)
  from update_global_filtered_concat
         [where decision = ?dec and species_hook = ?hs and new_species = ?ns
            and reactions_hook = "Dilution_update_reactions repr_sample"
            and new_reactions = ?nr, OF 1 2 3]
  show ?thesis
    by simp
qed

text \<open>
  Claim C10.  The result on \<open>l1 @ l2\<close> is the result on \<open>l1\<close> followed by the result
  on \<open>l2\<close>: the first exception of the two calls in this order if there is one, the
  concatenation of the two lists otherwise.  In particular a species that occurs twice is
  filtered and dispatched at each occurrence, and its output appears twice.
\<close>

theorem update_global_append:
  "update_species_global rp mrp species_hook m (l1 @ l2) parameters =
     (case update_species_global rp mrp species_hook m l1 parameters of
        Inl e \<Rightarrow> Inl e
      | Inr a \<Rightarrow>
          (case update_species_global rp mrp species_hook m l2 parameters of
             Inl e \<Rightarrow> Inl e
           | Inr b \<Rightarrow> Inr (a @ b))) \<and>
   update_reactions_global rp mrp reactions_hook m (l1 @ l2) parameters =
     (case update_reactions_global rp mrp reactions_hook m l1 parameters of
        Inl e \<Rightarrow> Inl e
      | Inr a \<Rightarrow>
          (case update_reactions_global rp mrp reactions_hook m l2 parameters of
             Inl e \<Rightarrow> Inl e
           | Inr b \<Rightarrow> Inr (a @ b))) \<and>
   update_species_global rp mrp species_hook m [s, s] parameters =
     (case update_species_global rp mrp species_hook m [s] parameters of
        Inl e \<Rightarrow> Inl e
      | Inr a \<Rightarrow> Inr (a @ a)) \<and>
   update_reactions_global rp mrp reactions_hook m [s, s] parameters =
     (case update_reactions_global rp mrp reactions_hook m [s] parameters of
        Inl e \<Rightarrow> Inl e
      | Inr a \<Rightarrow> Inr (a @ a))"
proof (intro conjI)
  show "update_species_global rp mrp species_hook m (l1 @ l2) parameters =
     (case update_species_global rp mrp species_hook m l1 parameters of
        Inl e \<Rightarrow> Inl e
      | Inr a \<Rightarrow>
          (case update_species_global rp mrp species_hook m l2 parameters of
             Inl e \<Rightarrow> Inl e
           | Inr b \<Rightarrow> Inr (a @ b)))"
    unfolding update_species_global_def by (rule update_global_loop_hom)
next
  show "update_reactions_global rp mrp reactions_hook m (l1 @ l2) parameters =
     (case update_reactions_global rp mrp reactions_hook m l1 parameters of
        Inl e \<Rightarrow> Inl e
      | Inr a \<Rightarrow>
          (case update_reactions_global rp mrp reactions_hook m l2 parameters of
             Inl e \<Rightarrow> Inl e
           | Inr b \<Rightarrow> Inr (a @ b)))"
    unfolding update_reactions_global_def by (rule update_global_loop_hom)
next
  have "update_global_loop rp mrp species_hook m parameters ([s] @ [s]) [] =
     (case update_global_loop rp mrp species_hook m parameters [s] [] of
        Inl e \<Rightarrow> Inl e
      | Inr a \<Rightarrow>
          (case update_global_loop rp mrp species_hook m parameters [s] [] of
             Inl e \<Rightarrow> Inl e
           | Inr b \<Rightarrow> Inr (a @ b)))"
    by (rule update_global_loop_hom)
  then show "update_species_global rp mrp species_hook m [s, s] parameters =
     (case update_species_global rp mrp species_hook m [s] parameters of
        Inl e \<Rightarrow> Inl e
      | Inr a \<Rightarrow> Inr (a @ a))"
    unfolding update_species_global_def
    by (cases "update_global_loop rp mrp species_hook m parameters [s] []") simp_all
next
  have "update_global_loop rp mrp reactions_hook m parameters ([s] @ [s]) [] =
     (case update_global_loop rp mrp reactions_hook m parameters [s] [] of
        Inl e \<Rightarrow> Inl e
      | Inr a \<Rightarrow>
          (case update_global_loop rp mrp reactions_hook m parameters [s] [] of
             Inl e \<Rightarrow> Inl e
           | Inr b \<Rightarrow> Inr (a @ b)))"
    by (rule update_global_loop_hom)
  then show "update_reactions_global rp mrp reactions_hook m [s, s] parameters =
     (case update_reactions_global rp mrp reactions_hook m [s] parameters of
        Inl e \<Rightarrow> Inl e
      | Inr a \<Rightarrow> Inr (a @ a))"
    unfolding update_reactions_global_def
    by (cases "update_global_loop rp mrp reactions_hook m parameters [s] []") simp_all
qed

section \<open>Claims about the concrete mechanisms\<close>

text \<open>
  Claim C7.  When \<open>get_parameter\<close>, with the name and the type of the mechanism, resolves
  \<^verbatim>\<open>kdil\<close> for the species to a value, \<^verbatim>\<open>Dilution.update_reactions\<close> returns exactly
  one reaction, with the species as its only reactant, no product, and that value as
  its rate.
\<close>

theorem Dilution_update_reactions_decay:
  "get_parameter rp m s parameters ''kdil'' = Inr kdil \<Longrightarrow>
   Dilution_update_reactions rp m s parameters = Inr [\<lparr>inputs = [s], outputs = [], k = kdil\<rparr>]"
  by (simp add: Dilution_update_reactions_def Reaction_def)

text \<open>The default \<open>Dilution\<close> mechanism and a store with the bare key.\<close>

theorem Dilution_update_reactions_decay_witness:
  "Dilution_update_reactions repr_sample Dilution_default (Species ''GFP'' ''protein'' [])
     (map_of [(Name ''kdil'', 0.01 :: real)]) =
   Inr [\<lparr>inputs = [Species ''GFP'' ''protein'' []], outputs = [], k = 0.01\<rparr>]"
proof -
  have "get_parameter repr_sample Dilution_default (Species ''GFP'' ''protein'' [])
     (map_of [(Name ''kdil'', 0.01 :: real)]) ''kdil'' = Inr 0.01"
    by (simp add: get_parameter_def)
  then show ?thesis
    by (rule Dilution_update_reactions_decay)
qed

text \<open>
  Claim C8.  When the store holds the bare key \<^verbatim>\<open>kdil\<close>,
  \<^verbatim>\<open>AnitDilutionConstiutiveCreation.update_reactions\<close> returns exactly one reaction, with
  no reactant, the species as its only product, and the value under the bare key as its
  rate, whatever the store holds under any other key.
\<close>

theorem AnitDilutionConstiutiveCreation_update_reactions_production:
  "parameters (Name ''kdil'') = Some kdil \<Longrightarrow>
   AnitDilutionConstiutiveCreation_update_reactions m s parameters =
     Inr [\<lparr>inputs = [], outputs = [s], k = kdil\<rparr>]"
  by (simp add: AnitDilutionConstiutiveCreation_update_reactions_def Reaction_def)

text \<open>A store that also holds two more specific keys, which \<open>get_parameter\<close> would
  prefer: the rate is the value under the bare key.\<close>

theorem AnitDilutionConstiutiveCreation_update_reactions_production_witness:
  "AnitDilutionConstiutiveCreation_update_reactions AnitDilutionConstiutiveCreation_default
     (Species ''RNAP'' ''protein'' [])
     (map_of [(Tuple [''anti_dilution_constiuitive_creation'', ''protein_RNAP'', ''kdil''], 5),
              (Tuple [''dilution'', ''kdil''], 7), (Name ''kdil'', 0.02 :: real)]) =
   Inr [\<lparr>inputs = [], outputs = [Species ''RNAP'' ''protein'' []], k = 0.02\<rparr>]"
proof -
  have "map_of [(Tuple [''anti_dilution_constiuitive_creation'', ''protein_RNAP'', ''kdil''], 5),
              (Tuple [''dilution'', ''kdil''], 7), (Name ''kdil'', 0.02 :: real)] (Name ''kdil'') =
        Some 0.02"
    by simp
  then show ?thesis
    by (rule AnitDilutionConstiutiveCreation_update_reactions_production)
qed

text \<open>
  Claim C9.  When the store lacks the bare key \<^verbatim>\<open>kdil\<close>,
  \<^verbatim>\<open>AnitDilutionConstiutiveCreation.update_reactions\<close> fails with the \<^verbatim>\<open>KeyError\<close> of the
  dictionary for that key, not with the \<^verbatim>\<open>ValueError\<close> of \<open>get_parameter\<close>, whatever
  mechanism-scoped or species-scoped keys the store holds.
\<close>

theorem AnitDilutionConstiutiveCreation_update_reactions_KeyError:
  "parameters (Name ''kdil'') = None \<Longrightarrow>
   AnitDilutionConstiutiveCreation_update_reactions m s parameters = Inl (KeyError (Name ''kdil'')) \<and>
   AnitDilutionConstiutiveCreation_update_reactions m s parameters \<noteq>
     Inl (not_found_error rp m s ''kdil'')"
  by (simp add: AnitDilutionConstiutiveCreation_update_reactions_def not_found_error_def)

text \<open>A store with a mechanism-scoped and a species-scoped key, from which
  \<open>get_parameter\<close> would resolve \<^verbatim>\<open>kdil\<close>.\<close>

theorem AnitDilutionConstiutiveCreation_update_reactions_KeyError_witness:
  "get_parameter repr_sample AnitDilutionConstiutiveCreation_default (Species ''RNAP'' ''protein'' [])
     (map_of [(Tuple [''anti_dilution_constiuitive_creation'', ''kdil''], 5 :: real),
              (Tuple [''protein_RNAP'', ''kdil''], 7)]) ''kdil'' = Inr 7 \<and>
   AnitDilutionConstiutiveCreation_update_reactions AnitDilutionConstiutiveCreation_default
     (Species ''RNAP'' ''protein'' [])
     (map_of [(Tuple [''anti_dilution_constiuitive_creation'', ''kdil''], 5 :: real),
              (Tuple [''protein_RNAP'', ''kdil''], 7)]) = Inl (KeyError (Name ''kdil''))"
proof
  show "get_parameter repr_sample AnitDilutionConstiutiveCreation_default (Species ''RNAP'' ''protein'' [])
     (map_of [(Tuple [''anti_dilution_constiuitive_creation'', ''kdil''], 5 :: real),
              (Tuple [''protein_RNAP'', ''kdil''], 7)]) ''kdil'' = Inr 7"
    by (simp add: get_parameter_def repr_sample_def AnitDilutionConstiutiveCreation_default_def
          AnitDilutionConstiutiveCreation_def GlobalMechanism_def)
next
  let ?P = "map_of [(Tuple [''anti_dilution_constiuitive_creation'', ''kdil''], 5 :: real),
              (Tuple [''protein_RNAP'', ''kdil''], 7)]"
  have "?P (Name ''kdil'') = None"
    by simp
  from AnitDilutionConstiutiveCreation_update_reactions_KeyError
         [of ?P AnitDilutionConstiutiveCreation_default "Species ''RNAP'' ''protein'' []"
            repr_sample, OF this, THEN conjunct1]
  show "AnitDilutionConstiutiveCreation_update_reactions AnitDilutionConstiutiveCreation_default
     (Species ''RNAP'' ''protein'' []) ?P = Inl (KeyError (Name ''kdil''))" .
qed

end
